theory Spec2Isabelle
  imports Complex_Main "HOL-Library.Multiset" "HOL-Library.Char_ord"
    "HOL-Library.List_Lexorder" "HOL-Library.Product_Lexorder"
begin

section \<open>Tables\<close>

text \<open>
  The processor of \<^verbatim>\<open>Scripts/data_ingestion/data_processor.py\<close> works on pandas
  data frames. A frame is modelled as its column labels (in order, duplicates allowed, since
  \<^verbatim>\<open>rename\<close> can produce them), its row labels and its rows. A cell is a number, a
  string or the missing marker. Numbers are exact rationals; the infinities of floating
  point are not cells.
\<close>

datatype cell = Num rat | Str string | NaN

datatype error =
    FileNotFoundError string
  | ValueError string
  | KeyError string
  | TypeError string
  | AttributeError string
  | IndexError string
  | InvalidIndexError string

record table =
  columns :: "string list"
  index :: "nat list"
  rows :: "cell list list"


definition then_do :: "error + 'a \<Rightarrow> ('a \<Rightarrow> error + 'b) \<Rightarrow> error + 'b" where
  "then_do r f = (case r of Inl e \<Rightarrow> Inl e | Inr x \<Rightarrow> f x)"

definition cell_at :: "cell list \<Rightarrow> nat \<Rightarrow> cell" where
  "cell_at r i = (if i < length r then r ! i else NaN)"

text \<open>The positions of a label among the column labels.\<close>

definition locs :: "string list \<Rightarrow> string \<Rightarrow> nat list" where
  "locs cols c = filter (\<lambda>i. cols ! i = c) [0..<length cols]"

text \<open>
  \<^verbatim>\<open>df[c]\<close>: a missing label raises KeyError, a label that occurs once selects a
  series, a label that occurs several times selects a frame.
\<close>

datatype selection = Series "cell list" | Frame "cell list list"

definition getitem :: "table \<Rightarrow> string \<Rightarrow> error + selection" where
  "getitem df c =
     (case locs (columns df) c of
        [] \<Rightarrow> Inl (KeyError c)
      | [i] \<Rightarrow> Inr (Series (map (\<lambda>r. cell_at r i) (rows df)))
      | i # j # ks \<Rightarrow> Inr (Frame (map (\<lambda>r. map (cell_at r) (i # j # ks)) (rows df))))"

text \<open>
  \<^verbatim>\<open>df[c] = values\<close>: a new label appends a column, an existing label is overwritten
  wherever it occurs.
\<close>

definition setitem :: "table \<Rightarrow> string \<Rightarrow> cell list \<Rightarrow> table" where
  "setitem df c vs =
     (let ps = locs (columns df) c in
      if ps = []
      then df\<lparr>columns := columns df @ [c],
              rows := map (\<lambda>(r, v). r @ [v]) (zip (rows df) vs)\<rparr>
      else df\<lparr>rows := map (\<lambda>(r, v). fold (\<lambda>i r'. r'[i := v]) ps r) (zip (rows df) vs)\<rparr>)"

definition setitem_scalar :: "table \<Rightarrow> string \<Rightarrow> cell \<Rightarrow> table" where
  "setitem_scalar df c v = setitem df c (replicate (length (rows df)) v)"

section \<open>Column standardizer\<close>

definition COLUMN_MAPPINGS :: "(string \<times> (string \<times> string) list) list" where
  "COLUMN_MAPPINGS =
     [(''2012_2021'',
        [(''Year'', ''year''),
         (''Year ending'', ''year_ending''),
         (''Police Region'', ''police_region''),
         (''Local Government Area'', ''lga_name''),
         (''Incidents Recorded'', ''incidents_recorded''),
         (''Rate per 100,000 population'', ''rate_per_100000''),
         (''Offence Division'', ''offence_division''),
         (''Offence Subdivision'', ''offence_subdivision''),
         (''Offence Subgroup'', ''offence_subgroup''),
         (''Police Service Area'', ''police_service_area''),
         (''Postcode'', ''postcode''),
         (''Suburb/Town Name'', ''suburb''),
         (''Location Division'', ''location_division''),
         (''Location Subdivision'', ''location_subdivision''),
         (''Location Group'', ''location_group''),
         (''Charge Status'', ''charge_status'')]),
      (''2010_2019'',
        [(''Year'', ''year''),
         (''Year ending'', ''year_ending''),
         (''LGA_CODE'', ''lga_code''),
         (''LGA_NAME'', ''lga_name''),
         (''lga_name'', ''lga_name''),
         (''Local Government Area'', ''lga_name''),
         (''Offence Division'', ''offence_division''),
         (''Offence Subdivision'', ''offence_subdivision''),
         (''Offence Subgroup'', ''offence_subgroup''),
         (''offence_division'', ''offence_division''),
         (''Incidents Recorded'', ''incidents_recorded''),
         (''incidents_recorded'', ''incidents_recorded''),
         (''Rate per 100,000 population'', ''rate_per_100000''),
         (''rate_per_100000'', ''rate_per_100000'')])]"

text \<open>\<^verbatim>\<open>self.COLUMN_MAPPINGS.get(source_type, {})\<close>\<close>

definition vintage_mapping :: "string \<Rightarrow> (string \<times> string) list" where
  "vintage_mapping source_type =
     (case map_of COLUMN_MAPPINGS source_type of Some m \<Rightarrow> m | None \<Rightarrow> [])"

text \<open>\<^verbatim>\<open>df.rename(columns=d)\<close>: a label that is a key of \<open>d\<close> is replaced, any other is kept.\<close>

definition rename_label :: "(string \<times> string) list \<Rightarrow> string \<Rightarrow> string" where
  "rename_label d c = (case map_of d c of Some v \<Rightarrow> v | None \<Rightarrow> c)"

definition rename :: "table \<Rightarrow> (string \<times> string) list \<Rightarrow> table" where
  "rename df d = df\<lparr>columns := map (rename_label d) (columns df)\<rparr>"

text \<open>
  \<^verbatim>\<open>pd.to_numeric(arg, errors='coerce')\<close>. The reading of a string as a number is
  pandas' own and is a parameter \<open>parse\<close> of the model: a string that \<open>parse\<close> reads
  becomes that number, any other string becomes missing. Given a frame (a label that
  occurs several times) the function raises TypeError.
\<close>

definition coerce :: "(string \<Rightarrow> rat option) \<Rightarrow> cell \<Rightarrow> cell" where
  "coerce parse v =
     (case v of Num x \<Rightarrow> Num x
      | Str s \<Rightarrow> (case parse s of Some x \<Rightarrow> Num x | None \<Rightarrow> NaN)
      | NaN \<Rightarrow> NaN)"

definition to_numeric :: "(string \<Rightarrow> rat option) \<Rightarrow> selection \<Rightarrow> error + cell list" where
  "to_numeric parse arg =
     (case arg of
        Series vs \<Rightarrow> Inr (map (coerce parse) vs)
      | Frame _ \<Rightarrow> Inl (TypeError ''arg must be a list, tuple, 1-d array, or Series''))"

definition standardize_columns ::
  "(string \<Rightarrow> rat option) \<Rightarrow> table \<Rightarrow> string \<Rightarrow> error + table" where
  "standardize_columns parse df source_type =
     (let mapping = vintage_mapping source_type;
          columns_to_rename =
            map (\<lambda>col. (col, the (map_of mapping col)))
              (filter (\<lambda>col. map_of mapping col \<noteq> None) (columns df));
          df1 = rename df columns_to_rename
      in if ''year'' \<in> set (columns df1)
         then then_do (getitem df1 ''year'') (\<lambda>sel.
              then_do (to_numeric parse sel) (\<lambda>vs.
              Inr (setitem df1 ''year'' vs)))
         else Inr df1)"

text \<open>
  A reading of plain decimal integers (an optional sign, then digits), used where a
  concrete parser is needed.
\<close>

definition digit_of :: "char \<Rightarrow> nat option" where
  "digit_of c =
     (let n = (of_char c :: nat) in if 48 \<le> n \<and> n \<le> 57 then Some (n - 48) else None)"

fun digits_of :: "nat \<Rightarrow> string \<Rightarrow> nat option" where
  "digits_of acc [] = Some acc"
| "digits_of acc (c # cs) =
     (case digit_of c of None \<Rightarrow> None | Some d \<Rightarrow> digits_of (10 * acc + d) cs)"

definition parse_decimal :: "string \<Rightarrow> rat option" where
  "parse_decimal s =
     (case s of
        [] \<Rightarrow> None
      | c # cs \<Rightarrow>
          if c = CHR ''-'' then (if cs = [] then None else map_option (\<lambda>n. - of_nat n) (digits_of 0 cs))
          else if c = CHR ''+'' then (if cs = [] then None else map_option of_nat (digits_of 0 cs))
          else map_option of_nat (digits_of 0 s))"

section \<open>Files, workbooks and the processor's state\<close>

text \<open>
  A workbook is a list of named sheets; a sheet is its header row (as pandas reads it)
  and its body. The state holds the files of the data directory, the processor's cache
  \<^verbatim>\<open>self.loaded_data\<close> and a log of the file operations performed, in order.
  An exception leaves the state as it was when it was raised, so every operation returns
  its outcome together with the state.
\<close>

type_synonym sheet = "string list \<times> cell list list"

type_synonym workbook = "(string \<times> sheet) list"

datatype fs_event =
    Exists string
  | OpenWorkbook string
  | ReadExcel string string
  | WriteFile string string table

record world =
  files :: "string \<rightharpoonup> workbook"
  loaded_data :: "string \<rightharpoonup> table"
  fs_log :: "fs_event list"

type_synonym 'a action = "world \<Rightarrow> (error + 'a) \<times> world"

definition log_event :: "fs_event \<Rightarrow> world \<Rightarrow> world" where
  "log_event ev w = w\<lparr>fs_log := fs_log w @ [ev]\<rparr>"

definition DATA_FILES :: "(string \<times> string) list" where
  "DATA_FILES =
     [(''criminal_incidents_2012_2021'', ''Data/LGA_Criminal_Incidents_Year_Ending_September_2021.xlsx''),
      (''criminal_incidents_2010_2019'', ''Data/LGA_Criminal_Incidents_Principal_Offence_2010_2019.xlsx''),
      (''recorded_offences'', ''Data/LGA_Recorded_Offences_Year_Ending_September_2021.xlsx''),
      (''alleged_offenders'', ''Data/LGA_Alleged_Offenders_Year_Ending_September_2021.xlsx''),
      (''family_incidents'', ''Data/LGA_Family_Incidents_Year_Ending_September_2021.xlsx''),
      (''victim_reports'', ''Data/LGA_Victim_Reports_Year_Ending_September_2021.xlsx'')]"

definition data_file :: "string \<Rightarrow> string" where
  "data_file name = (case map_of DATA_FILES name of Some p \<Rightarrow> p | None \<Rightarrow> [])"

text \<open>
  \<^verbatim>\<open>pd.read_excel(path, sheet_name=name)\<close> on an existing workbook: an unknown
  sheet raises ValueError; otherwise the frame has the sheet's header as columns, a fresh
  row index, and rectangular rows (short rows are filled with the missing marker).
\<close>

definition frame_of_sheet :: "sheet \<Rightarrow> table" where
  "frame_of_sheet sh =
     (let n = length (fst sh) in
      \<lparr>columns = fst sh, index = [0..<length (snd sh)],
       rows = map (\<lambda>r. take n (r @ replicate (n - length r) NaN)) (snd sh)\<rparr>)"

definition read_excel :: "workbook \<Rightarrow> string \<Rightarrow> error + table" where
  "read_excel wb sheet_name =
     (case map_of wb sheet_name of
        None \<Rightarrow> Inl (ValueError (''Worksheet not found: '' @ sheet_name))
      | Some sh \<Rightarrow> Inr (frame_of_sheet sh))"

section \<open>Dataset loader\<close>

definition stamp :: "string \<Rightarrow> string \<Rightarrow> table \<Rightarrow> table" where
  "stamp source month df =
     setitem_scalar (setitem_scalar df ''data_source'' (Str source)) ''year_ending_month'' (Str month)"

definition load_criminal_incidents_2012_2021 ::
  "(string \<Rightarrow> rat option) \<Rightarrow> string \<Rightarrow> table action" where
  "load_criminal_incidents_2012_2021 parse sheet_name w =
     (let file_path = data_file ''criminal_incidents_2012_2021'';
          w1 = log_event (Exists file_path) w
      in case files w file_path of
           None \<Rightarrow> (Inl (FileNotFoundError (''File not found: '' @ file_path)), w1)
         | Some wb \<Rightarrow>
             (let w2 = log_event (ReadExcel file_path sheet_name) w1
              in case then_do (read_excel wb sheet_name)
                        (\<lambda>df. standardize_columns parse df ''2012_2021'') of
                   Inl e \<Rightarrow> (Inl e, w2)
                 | Inr df \<Rightarrow>
                     (let df' = stamp ''CSA_2012_2021'' ''September'' df
                      in (Inr df',
                          w2\<lparr>loaded_data :=
                               (loaded_data w2)(''criminal_incidents_2012_2021'' \<mapsto> df')\<rparr>))))"

text \<open>
  \<^verbatim>\<open>s.lower()\<close> on the letters A to Z; other characters are kept.
\<close>

definition lower_char :: "char \<Rightarrow> char" where
  "lower_char c =
     (let n = (of_char c :: nat) in if 65 \<le> n \<and> n \<le> 90 then char_of (n + 32) else c)"

definition lower :: "string \<Rightarrow> string" where
  "lower s = map lower_char s"

text \<open>
  Lines 187 to 192: with no sheet name given, the first sheet whose lowered name is not
  one of contents, notes, metadata; failing that, the first sheet.
\<close>

definition choose_sheet :: "string option \<Rightarrow> string list \<Rightarrow> error + string" where
  "choose_sheet sheet_name sheets =
     (case sheet_name of
        Some n \<Rightarrow> Inr n
      | None \<Rightarrow>
          (let data_sheets =
                 filter (\<lambda>s. lower s \<notin> set [''contents'', ''notes'', ''metadata'']) sheets
           in if data_sheets \<noteq> [] then Inr (hd data_sheets)
              else (case sheets of
                      [] \<Rightarrow> Inl (IndexError ''list index out of range'')
                    | s0 # _ \<Rightarrow> Inr s0)))"

definition load_criminal_incidents_2010_2019 ::
  "(string \<Rightarrow> rat option) \<Rightarrow> string option \<Rightarrow> table action" where
  "load_criminal_incidents_2010_2019 parse sheet_name w =
     (let file_path = data_file ''criminal_incidents_2010_2019'';
          w1 = log_event (Exists file_path) w
      in case files w file_path of
           None \<Rightarrow>
             (Inl (FileNotFoundError
                (''File not found: '' @ file_path @ [CHR 0x0A] @
                 ''Please download the 2010-2019 data from:'' @ [CHR 0x0A] @
                 ''https://www.crimestatistics.vic.gov.au/download-data-11'' @ [CHR 0x0A] @
                 ''or run: python download_2010_2019_data.py --download'')), w1)
         | Some wb \<Rightarrow>
             (let w2 = log_event (OpenWorkbook file_path) w1
              in case choose_sheet sheet_name (map fst wb) of
                   Inl e \<Rightarrow> (Inl e, w2)
                 | Inr n \<Rightarrow>
                     (let w3 = log_event (ReadExcel file_path n) w2
                      in case then_do (read_excel wb n)
                                (\<lambda>df. standardize_columns parse df ''2010_2019'') of
                           Inl e \<Rightarrow> (Inl e, w3)
                         | Inr df \<Rightarrow>
                             (let df' = stamp ''CSA_2010_2019'' ''March'' df
                              in (Inr df',
                                  w3\<lparr>loaded_data :=
                                       (loaded_data w3)(''criminal_incidents_2010_2019'' \<mapsto> df')\<rparr>)))))"

section \<open>Time-series merger\<close>

text \<open>
  \<^verbatim>\<open>set(df['year'].dropna().unique())\<close>: the numbers of the year column. A missing
  label raises KeyError; a frame has no \<^verbatim>\<open>unique\<close>. The loader leaves no string in
  a year column; for a column that holds one the comparisons of the merge are reported as
  a TypeError.
\<close>

definition num_of :: "cell \<Rightarrow> rat option" where
  "num_of v = (case v of Num x \<Rightarrow> Some x | _ \<Rightarrow> None)"

definition is_str :: "cell \<Rightarrow> bool" where
  "is_str v = (case v of Str _ \<Rightarrow> True | _ \<Rightarrow> False)"

definition year_series :: "table \<Rightarrow> error + cell list" where
  "year_series df =
     then_do (getitem df ''year'') (\<lambda>sel.
       case sel of
         Frame _ \<Rightarrow> Inl (AttributeError ''DataFrame object has no attribute unique'')
       | Series vs \<Rightarrow>
           if list_ex is_str vs
           then Inl (TypeError ''year column is not numeric'')
           else Inr vs)"

definition years_of :: "cell list \<Rightarrow> rat list" where
  "years_of vs = remdups (List.map_filter num_of vs)"

definition min_year :: "rat list \<Rightarrow> error + rat" where
  "min_year ys =
     (case ys of [] \<Rightarrow> Inl (ValueError ''min() arg is an empty sequence'')
      | y # ys' \<Rightarrow> Inr (fold min ys' y))"

definition max_year :: "rat list \<Rightarrow> error + rat" where
  "max_year ys =
     (case ys of [] \<Rightarrow> Inl (ValueError ''max() arg is an empty sequence'')
      | y # ys' \<Rightarrow> Inr (fold max ys' y))"

text \<open>\<^verbatim>\<open>df[mask]\<close>: the rows whose mask is true, with their row labels.\<close>

definition select_rows :: "table \<Rightarrow> bool list \<Rightarrow> table" where
  "select_rows df keep =
     df\<lparr>index := map fst (filter snd (zip (index df) keep)),
        rows := map fst (filter snd (zip (rows df) keep))\<rparr>"

definition year_lt :: "rat \<Rightarrow> cell \<Rightarrow> bool" where
  "year_lt m v = (case v of Num x \<Rightarrow> x < m | _ \<Rightarrow> False)"

definition year_gt :: "rat \<Rightarrow> cell \<Rightarrow> bool" where
  "year_gt m v = (case v of Num x \<Rightarrow> m < x | _ \<Rightarrow> False)"

text \<open>
  \<^verbatim>\<open>pd.concat([a, b], ignore_index=True)\<close>: the columns are those of \<open>a\<close> followed
  by the new ones of \<open>b\<close>; a cell of a column a frame lacks is missing. Frames with the
  same column labels are stacked as they are; otherwise duplicated labels cannot be
  re-indexed.
\<close>

definition lookup_cell :: "string list \<Rightarrow> cell list \<Rightarrow> string \<Rightarrow> cell" where
  "lookup_cell cols r c = (case locs cols c of [] \<Rightarrow> NaN | i # _ \<Rightarrow> cell_at r i)"

definition reindex_row :: "string list \<Rightarrow> string list \<Rightarrow> cell list \<Rightarrow> cell list" where
  "reindex_row src dst r = map (lookup_cell src r) dst"

definition pd_concat :: "table \<Rightarrow> table \<Rightarrow> error + table" where
  "pd_concat a b =
     (if columns a = columns b
      then Inr \<lparr>columns = columns a, index = [0..<length (rows a) + length (rows b)],
                rows = rows a @ rows b\<rparr>
      else if distinct (columns a) \<and> distinct (columns b)
      then (let cols = columns a @ filter (\<lambda>c. c \<notin> set (columns a)) (columns b)
            in Inr \<lparr>columns = cols, index = [0..<length (rows a) + length (rows b)],
                    rows = map (reindex_row (columns a) cols) (rows a) @
                           map (reindex_row (columns b) cols) (rows b)\<rparr>)
      else Inl (InvalidIndexError ''Reindexing only valid with uniquely valued Index objects''))"

text \<open>
  \<^verbatim>\<open>df.sort_values(keys)\<close> with several keys: a stable sort on the key columns in
  order, ascending, numbers before strings, missing values last. A missing key label
  raises KeyError, a duplicated one ValueError.
\<close>

fun cell_key :: "cell \<Rightarrow> nat \<times> rat \<times> string" where
  "cell_key (Num x) = (0, x, [])"
| "cell_key (Str s) = (1, 0, s)"
| "cell_key NaN = (2, 0, [])"

fun key_locs :: "string list \<Rightarrow> string list \<Rightarrow> error + nat list" where
  "key_locs cols [] = Inr []"
| "key_locs cols (c # cs) =
     (case locs cols c of
        [] \<Rightarrow> Inl (KeyError c)
      | [i] \<Rightarrow> then_do (key_locs cols cs) (\<lambda>is. Inr (i # is))
      | _ # _ # _ \<Rightarrow> Inl (ValueError (''The column label is not unique: '' @ c)))"

definition row_key :: "nat list \<Rightarrow> cell list \<Rightarrow> (nat \<times> rat \<times> string) list" where
  "row_key ls r = map (\<lambda>i. cell_key (cell_at r i)) ls"

definition sort_values :: "string list \<Rightarrow> table \<Rightarrow> error + table" where
  "sort_values keys df =
     then_do (key_locs (columns df) keys) (\<lambda>ls.
       let perm = sort_key (\<lambda>p. row_key ls (snd p)) (zip (index df) (rows df))
       in Inr (df\<lparr>index := map fst perm, rows := map snd perm\<rparr>))"

definition reset_index :: "table \<Rightarrow> table" where
  "reset_index df = df\<lparr>index := [0..<length (rows df)]\<rparr>"

text \<open>Lines 272 to 294 of the source: the merge of two loaded tables.\<close>

definition merge_loaded :: "bool \<Rightarrow> table \<Rightarrow> table \<Rightarrow> error + table" where
  "merge_loaded prefer_september df_2012 df_2010 =
     then_do (year_series df_2012) (\<lambda>ys_2012.
     then_do (year_series df_2010) (\<lambda>ys_2010.
     let years_2012 = years_of ys_2012;
         years_2010 = years_of ys_2010
     in then_do
          (if prefer_september
           then then_do (min_year years_2012) (\<lambda>m.
                  let df_early = select_rows df_2010 (map (year_lt m) ys_2010)
                  in pd_concat df_early df_2012)
           else then_do (max_year years_2010) (\<lambda>m.
                  let df_late = select_rows df_2012 (map (year_gt m) ys_2012)
                  in pd_concat df_2010 df_late))
          (\<lambda>merged.
             then_do (sort_values [''year'', ''lga_name''] merged) (\<lambda>sorted.
             Inr (reset_index sorted)))))"

text \<open>
  The cache lookup and the guarded load of lines 248 to 261: only FileNotFoundError is
  caught.
\<close>

definition get_or_load :: "string \<Rightarrow> table action \<Rightarrow> (table option) action" where
  "get_or_load name load w =
     (case loaded_data w name of
        Some df \<Rightarrow> (Inr (Some df), w)
      | None \<Rightarrow>
          (case load w of
             (Inl (FileNotFoundError msg), w') \<Rightarrow> (Inr None, w')
           | (Inl e, w') \<Rightarrow> (Inl e, w')
           | (Inr df, w') \<Rightarrow> (Inr (Some df), w')))"

text \<open>A source is absent when it is neither cached nor on disk.\<close>

definition absent :: "string \<Rightarrow> world \<Rightarrow> bool" where
  "absent name w \<longleftrightarrow> loaded_data w name = None \<and> files w (data_file name) = None"

definition is_write :: "fs_event \<Rightarrow> bool" where
  "is_write ev = (case ev of WriteFile _ _ _ \<Rightarrow> True | _ \<Rightarrow> False)"

definition merge_time_series :: "(string \<Rightarrow> rat option) \<Rightarrow> bool \<Rightarrow> table action" where
  "merge_time_series parse prefer_september w =
     (case get_or_load ''criminal_incidents_2012_2021''
             (load_criminal_incidents_2012_2021 parse ''Table 01'') w of
        (Inl e, w1) \<Rightarrow> (Inl e, w1)
      | (Inr df_2012, w1) \<Rightarrow>
          (case get_or_load ''criminal_incidents_2010_2019''
                  (load_criminal_incidents_2010_2019 parse None) w1 of
             (Inl e, w2) \<Rightarrow> (Inl e, w2)
           | (Inr df_2010, w2) \<Rightarrow>
               (case (df_2012, df_2010) of
                  (None, None) \<Rightarrow>
                    (Inl (FileNotFoundError ''No data files available to merge''), w2)
                | (None, Some d10) \<Rightarrow> (Inr d10, w2)
                | (Some d12, None) \<Rightarrow> (Inr d12, w2)
                | (Some d12, Some d10) \<Rightarrow> (merge_loaded prefer_september d12 d10, w2))))"

section \<open>Exporter\<close>

definition OUTPUT_DIR :: string where
  "OUTPUT_DIR = ''Output_data''"

definition export_merged_data ::
  "(string \<Rightarrow> rat option) \<Rightarrow> string \<Rightarrow> string option \<Rightarrow> string action" where
  "export_merged_data parse output_format filename w =
     (case merge_time_series parse True w of
        (Inl e, w1) \<Rightarrow> (Inl e, w1)
      | (Inr merged, w1) \<Rightarrow>
          (let filename' =
                 (case filename of
                    None \<Rightarrow> ''criminal_incidents_extended_2010_2021.'' @ output_format
                  | Some f \<Rightarrow> f);
               output_path = OUTPUT_DIR @ ''/'' @ filename'
           in if output_format = ''csv''
              then (Inr output_path, log_event (WriteFile output_path ''csv'' merged) w1)
              else if output_format = ''excel''
              then (Inr output_path, log_event (WriteFile output_path ''excel'' merged) w1)
              else if output_format = ''parquet''
              then (Inr output_path, log_event (WriteFile output_path ''parquet'' merged) w1)
              else (Inl (ValueError (''Unsupported format: '' @ output_format)), w1)))"

section \<open>Summary and trend aggregator\<close>






fun collect :: "'a list \<Rightarrow> ('a \<Rightarrow> error + 'b) \<Rightarrow> error + 'b list" where
  "collect [] f = Inr []"
| "collect (x # xs) f =
     then_do (f x) (\<lambda>y. then_do (collect xs f) (\<lambda>ys. Inr (y # ys)))"












text \<open>
  Provenance of a loaded table: the loader stamps every row with its source and leaves
  no string in the year column.
\<close>

definition stamped :: "string \<Rightarrow> table \<Rightarrow> bool" where
  "stamped source df \<longleftrightarrow>
     ''data_source'' \<in> set (columns df) \<and>
     list_all (\<lambda>r. lookup_cell (columns df) r ''data_source'' = Str source) (rows df)"

section \<open>Example data\<close>

definition W10 :: world where
  "W10 = \<lparr>files = [data_file ''criminal_incidents_2010_2019'' \<mapsto>
             [(''Contents'', ([''Sheet''], [])),
              (''Data'', ([''Year'', ''LGA_NAME''], [[Str ''2011'', Str ''Hume''], [Str ''2010'', Str ''Hume'']]))]],
           loaded_data = Map.empty, fs_log = []\<rparr>"

definition W12 :: world where
  "W12 = \<lparr>files = [data_file ''criminal_incidents_2012_2021'' \<mapsto>
             [(''Table 01'', ([''Year'', ''Local Government Area''],
                 [[Str ''2013'', Str ''Hume''], [Str ''2012'', Str ''Hume'']]))]],
           loaded_data = Map.empty, fs_log = []\<rparr>"

definition W0 :: world where
  "W0 = \<lparr>files = Map.empty, loaded_data = Map.empty, fs_log = []\<rparr>"

definition T10 :: table where
  "T10 = \<lparr>columns = [''year'', ''lga_name'', ''data_source'', ''year_ending_month''], index = [0, 1],
      rows = [[Num 2011, Str ''Hume'', Str ''CSA_2010_2019'', Str ''March''],
              [Num 2010, Str ''Hume'', Str ''CSA_2010_2019'', Str ''March'']]\<rparr>"

definition T12 :: table where
  "T12 = \<lparr>columns = [''year'', ''lga_name'', ''data_source'', ''year_ending_month''], index = [0, 1],
      rows = [[Num 2013, Str ''Hume'', Str ''CSA_2012_2021'', Str ''September''],
              [Num 2012, Str ''Hume'', Str ''CSA_2012_2021'', Str ''September'']]\<rparr>"

definition WC10 :: world where
  "WC10 = \<lparr>files = Map.empty, loaded_data = [''criminal_incidents_2010_2019'' \<mapsto> T10], fs_log = []\<rparr>"

definition WC12 :: world where
  "WC12 = \<lparr>files = Map.empty, loaded_data = [''criminal_incidents_2012_2021'' \<mapsto> T12], fs_log = []\<rparr>"




definition M10 :: table where
  "M10 = \<lparr>columns = [''year'', ''lga_name'', ''data_source'', ''year_ending_month''], index = [0, 1, 2],
      rows = [[Num 2012, Str ''Hume'', Str ''CSA_2010_2019'', Str ''March''],
              [Num 2010, Str ''Hume'', Str ''CSA_2010_2019'', Str ''March''],
              [Num 2011, Str ''Hume'', Str ''CSA_2010_2019'', Str ''March'']]\<rparr>"

definition S12 :: table where
  "S12 = \<lparr>columns = [''year'', ''police_region'', ''lga_name'', ''data_source'', ''year_ending_month''],
      index = [0, 1],
      rows = [[Num 2013, Str ''North'', Str ''Hume'', Str ''CSA_2012_2021'', Str ''September''],
              [Num 2012, Str ''North'', Str ''Hume'', Str ''CSA_2012_2021'', Str ''September'']]\<rparr>"

definition WB :: world where
  "WB = \<lparr>files = Map.empty,
          loaded_data = [''criminal_incidents_2012_2021'' \<mapsto> S12, ''criminal_incidents_2010_2019'' \<mapsto> M10],
          fs_log = []\<rparr>"

definition MERGED_SEP :: table where
  "MERGED_SEP = \<lparr>columns = [''year'', ''lga_name'', ''data_source'', ''year_ending_month'', ''police_region''],
      index = [0, 1, 2, 3],
      rows = [[Num 2010, Str ''Hume'', Str ''CSA_2010_2019'', Str ''March'', NaN],
              [Num 2011, Str ''Hume'', Str ''CSA_2010_2019'', Str ''March'', NaN],
              [Num 2012, Str ''Hume'', Str ''CSA_2012_2021'', Str ''September'', Str ''North''],
              [Num 2013, Str ''Hume'', Str ''CSA_2012_2021'', Str ''September'', Str ''North'']]\<rparr>"

definition MERGED_MAR :: table where
  "MERGED_MAR = \<lparr>columns = [''year'', ''lga_name'', ''data_source'', ''year_ending_month'', ''police_region''],
      index = [0, 1, 2, 3],
      rows = [[Num 2010, Str ''Hume'', Str ''CSA_2010_2019'', Str ''March'', NaN],
              [Num 2011, Str ''Hume'', Str ''CSA_2010_2019'', Str ''March'', NaN],
              [Num 2012, Str ''Hume'', Str ''CSA_2010_2019'', Str ''March'', NaN],
              [Num 2013, Str ''Hume'', Str ''CSA_2012_2021'', Str ''September'', Str ''North'']]\<rparr>"

section \<open>Properties of the column standardizer\<close>

lemma then_do_simps:
  "then_do (Inl e) f = Inl e" "then_do (Inr x) f = f x"
  by (simp_all add: then_do_def)

lemma locs_snoc:
  "locs (cols @ [x]) c = locs cols c @ (if x = c then [length cols] else [])"
proof -
  have "filter (\<lambda>i. (cols @ [x]) ! i = c) [0..<length cols] = filter (\<lambda>i. cols ! i = c) [0..<length cols]"
    by (rule filter_cong) (auto simp: nth_append)
  then show ?thesis by (simp add: locs_def)
qed

lemma length_locs: "length (locs cols c) = count_list cols c"
  by (induction cols rule: rev_induct) (simp_all add: locs_snoc, simp add: locs_def)

lemma locs_empty_iff: "locs cols c = [] \<longleftrightarrow> c \<notin> set cols"
  by (auto simp: locs_def filter_empty_conv in_set_conv_nth)


lemma map_of_columns_to_rename:
  "map_of (map (\<lambda>col. (col, the (map_of m col))) (filter (\<lambda>col. map_of m col \<noteq> None) cols)) c
     = (if c \<in> set cols then map_of m c else None)"
  by (induction cols) auto

lemma rename_label_columns_to_rename:
  "c \<in> set cols \<Longrightarrow>
   rename_label (map (\<lambda>col. (col, the (map_of m col))) (filter (\<lambda>col. map_of m col \<noteq> None) cols)) c
     = rename_label m c"
  unfolding rename_label_def map_of_columns_to_rename by simp

lemma mappings_closed:
  "list_all (\<lambda>(n, m). list_all (\<lambda>(k, v). rename_label m v = v) m) COLUMN_MAPPINGS"
  unfolding COLUMN_MAPPINGS_def rename_label_def by simp

lemma vintage_mapping_closed:
  assumes "map_of (vintage_mapping st) c = Some v"
  shows "rename_label (vintage_mapping st) v = v"
proof (cases "map_of COLUMN_MAPPINGS st")
  case None
  with assms show ?thesis by (simp add: vintage_mapping_def)
next
  case (Some m)
  then have "(st, m) \<in> set COLUMN_MAPPINGS" by (rule map_of_SomeD)
  with mappings_closed have "list_all (\<lambda>(k, v). rename_label m v = v) m"
    by (auto simp: list_all_iff)
  moreover from assms Some have "(c, v) \<in> set m"
    by (auto simp: vintage_mapping_def dest: map_of_SomeD)
  ultimately show ?thesis using Some
    by (auto simp: list_all_iff vintage_mapping_def)
qed

lemma rename_label_idem:
  "rename_label (vintage_mapping st) (rename_label (vintage_mapping st) c) = rename_label (vintage_mapping st) c"
proof (cases "map_of (vintage_mapping st) c")
  case None
  then show ?thesis by (simp add: rename_label_def)
next
  case (Some v)
  then show ?thesis using vintage_mapping_closed[OF Some] by (simp add: rename_label_def[of _ c])
qed


lemma df1_columns:
  "map (rename_label (map (\<lambda>col. (col, the (map_of m col))) (filter (\<lambda>col. map_of m col \<noteq> None) cols))) cols
     = map (rename_label m) cols"
  by (rule map_cong) (simp_all add: rename_label_columns_to_rename del: not_None_eq)

lemma zip_map_self: "map (\<lambda>(r, v). g r v) (zip rs (map f rs)) = map (\<lambda>r. g r (f r)) rs"
  by (induction rs) auto

lemma standardize_no_year:
  assumes "''year'' \<notin> set (map (rename_label (vintage_mapping st)) (columns df))"
  shows "standardize_columns parse df st
           = Inr (df\<lparr>columns := map (rename_label (vintage_mapping st)) (columns df)\<rparr>)"
  using assms unfolding standardize_columns_def Let_def rename_def
  by (simp add: df1_columns del: set_map not_None_eq)

lemma standardize_one_year:
  assumes "locs (map (rename_label (vintage_mapping st)) (columns df)) ''year'' = [i]"
  shows "standardize_columns parse df st
           = Inr (df\<lparr>columns := map (rename_label (vintage_mapping st)) (columns df),
                    rows := map (\<lambda>r. r[i := coerce parse (cell_at r i)]) (rows df)\<rparr>)"
proof -
  from assms have "''year'' \<in> set (map (rename_label (vintage_mapping st)) (columns df))"
    using locs_empty_iff[of "map (rename_label (vintage_mapping st)) (columns df)" "''year''"] by auto
  then show ?thesis using assms
    unfolding standardize_columns_def Let_def rename_def
    by (simp add: df1_columns getitem_def to_numeric_def then_do_simps setitem_def zip_map_self del: set_map not_None_eq)
qed

lemma standardize_many_year:
  assumes "2 \<le> count_list (map (rename_label (vintage_mapping st)) (columns df)) ''year''"
  shows "standardize_columns parse df st
           = Inl (TypeError ''arg must be a list, tuple, 1-d array, or Series'')"
proof -
  let ?cols = "map (rename_label (vintage_mapping st)) (columns df)"
  from assms have len: "2 \<le> length (locs ?cols ''year'')" by (simp add: length_locs)
  then obtain i j ks where l: "locs ?cols ''year'' = i # j # ks"
    by (cases "locs ?cols ''year''"; cases "tl (locs ?cols ''year'')") auto
  then have "''year'' \<in> set ?cols"
    using locs_empty_iff[of ?cols "''year''"] by auto
  then show ?thesis using l
    unfolding standardize_columns_def Let_def rename_def
    by (simp add: df1_columns getitem_def to_numeric_def then_do_simps del: set_map not_None_eq)
qed

lemma count_cases:
  "c \<notin> set cols \<or> (\<exists>i. locs cols c = [i]) \<or> 2 \<le> count_list cols c"
proof -
  have "length (locs cols c) = 0 \<or> length (locs cols c) = 1 \<or> 2 \<le> length (locs cols c)" by arith
  then show ?thesis
    by (auto simp: locs_empty_iff length_locs[symmetric] length_Suc_conv)
qed





lemma std_cols_idem:
  "map (rename_label (vintage_mapping st)) (map (rename_label (vintage_mapping st)) cols)
     = map (rename_label (vintage_mapping st)) cols"
  by (simp add: rename_label_idem)



lemma standardize_Inl_cause:
  assumes "standardize_columns parse df st = Inl e"
  shows "2 \<le> count_list (map (rename_label (vintage_mapping st)) (columns df)) ''year''"
proof -
  let ?cols = "map (rename_label (vintage_mapping st)) (columns df)"
  consider (none) "''year'' \<notin> set ?cols" | (one) i where "locs ?cols ''year'' = [i]"
    | (many) "2 \<le> count_list ?cols ''year''"
    using count_cases[of "''year''" ?cols] by blast
  then show ?thesis
  proof cases
    case none
    from standardize_no_year[OF none, of parse] assms show ?thesis by simp
  next
    case (one j)
    from standardize_one_year[OF one, of parse] assms show ?thesis by simp
  next
    case many
    then show ?thesis .
  qed
qed




lemma locs_Nil: "locs [] c = []"
  by (simp add: locs_def)

lemma locs_Cons: "locs (x # xs) c = (if x = c then [0] else []) @ map Suc (locs xs c)"
proof -
  have "[0..<length (x # xs)] = 0 # map Suc [0..<length xs]"
    by (simp add: upt_conv_Cons map_Suc_upt del: upt_Suc)
  then show ?thesis by (simp add: locs_def filter_map o_def del: upt_Suc)
qed



lemmas std_eval = standardize_columns_def vintage_mapping_def COLUMN_MAPPINGS_def rename_def
  rename_label_def getitem_def setitem_def to_numeric_def then_do_def locs_Nil locs_Cons
  cell_at_def coerce_def






section \<open>Properties of the loader and the merger\<close>

lemma data_file_2012: "data_file ''criminal_incidents_2012_2021'' = ''Data/LGA_Criminal_Incidents_Year_Ending_September_2021.xlsx''"
  by (simp add: data_file_def DATA_FILES_def)

lemma data_file_2010: "data_file ''criminal_incidents_2010_2019'' = ''Data/LGA_Criminal_Incidents_Principal_Offence_2010_2019.xlsx''"
  by (simp add: data_file_def DATA_FILES_def)

lemma standardize_error_kind:
  "standardize_columns parse df st = Inl e \<Longrightarrow> e = TypeError ''arg must be a list, tuple, 1-d array, or Series''"
  using standardize_many_year[OF standardize_Inl_cause, of parse df st e] by simp

lemma load_2012_cases:
  "load_criminal_incidents_2012_2021 parse sn w = (r, w') \<Longrightarrow>
   (files w (data_file ''criminal_incidents_2012_2021'') = None \<and> (\<exists>m. r = Inl (FileNotFoundError m)) \<and>
      w' = log_event (Exists (data_file ''criminal_incidents_2012_2021'')) w) \<or>
   (files w (data_file ''criminal_incidents_2012_2021'') \<noteq> None \<and> (\<forall>m. r \<noteq> Inl (FileNotFoundError m)) \<and>
      files w' = files w \<and> (\<exists>evs. fs_log w' = fs_log w @ evs \<and> \<not> list_ex is_write evs) \<and>
      (\<forall>n. n \<noteq> ''criminal_incidents_2012_2021'' \<longrightarrow> loaded_data w' n = loaded_data w n))"
  unfolding load_criminal_incidents_2012_2021_def Let_def
  by (auto simp: log_event_def then_do_def read_excel_def is_write_def
        split: option.splits sum.splits dest: standardize_error_kind)

lemma choose_sheet_error_kind:
  "choose_sheet sn sheets = Inl e \<Longrightarrow> e = IndexError ''list index out of range''"
  by (auto simp: choose_sheet_def Let_def split: option.splits list.splits if_splits)

lemma load_2010_cases:
  "load_criminal_incidents_2010_2019 parse sn w = (r, w') \<Longrightarrow>
   (files w (data_file ''criminal_incidents_2010_2019'') = None \<and> (\<exists>m. r = Inl (FileNotFoundError m)) \<and>
      w' = log_event (Exists (data_file ''criminal_incidents_2010_2019'')) w) \<or>
   (files w (data_file ''criminal_incidents_2010_2019'') \<noteq> None \<and> (\<forall>m. r \<noteq> Inl (FileNotFoundError m)) \<and>
      files w' = files w \<and> (\<exists>evs. fs_log w' = fs_log w @ evs \<and> \<not> list_ex is_write evs) \<and>
      (\<forall>n. n \<noteq> ''criminal_incidents_2010_2019'' \<longrightarrow> loaded_data w' n = loaded_data w n))"
  unfolding load_criminal_incidents_2010_2019_def Let_def
  by (auto simp: log_event_def then_do_def read_excel_def is_write_def
        split: option.splits sum.splits dest: standardize_error_kind choose_sheet_error_kind)


lemma then_do_Inl:
  "then_do r f = Inl e \<Longrightarrow> r = Inl e \<or> (\<exists>x. r = Inr x \<and> f x = Inl e)"
  by (cases r) (simp_all add: then_do_def)

lemma then_do_Inr:
  "then_do r f = Inr y \<Longrightarrow> \<exists>x. r = Inr x \<and> f x = Inr y"
  by (cases r) (simp_all add: then_do_def)

lemma getitem_not_fnf: "getitem df c \<noteq> Inl (FileNotFoundError m)"
  by (auto simp: getitem_def split: list.splits)

lemma year_series_not_fnf: "year_series df \<noteq> Inl (FileNotFoundError m)"
  by (auto simp: year_series_def getitem_not_fnf split: selection.splits if_splits dest!: then_do_Inl)

lemma min_year_not_fnf: "min_year ys \<noteq> Inl (FileNotFoundError m)"
  by (auto simp: min_year_def split: list.splits)

lemma max_year_not_fnf: "max_year ys \<noteq> Inl (FileNotFoundError m)"
  by (auto simp: max_year_def split: list.splits)

lemma pd_concat_not_fnf: "pd_concat a b \<noteq> Inl (FileNotFoundError m)"
  by (auto simp: pd_concat_def Let_def)

lemma key_locs_not_fnf: "key_locs cols cs \<noteq> Inl (FileNotFoundError m)"
  by (induction cs) (auto split: list.splits dest!: then_do_Inl)

lemma sort_values_not_fnf: "sort_values ks df \<noteq> Inl (FileNotFoundError m)"
  by (auto simp: sort_values_def Let_def key_locs_not_fnf dest!: then_do_Inl)

lemma merge_loaded_not_fnf: "merge_loaded p a b \<noteq> Inl (FileNotFoundError m)"
  unfolding merge_loaded_def Let_def
  by (auto simp: year_series_not_fnf min_year_not_fnf max_year_not_fnf pd_concat_not_fnf
        sort_values_not_fnf dest!: then_do_Inl split: if_splits)

lemma get_or_load_2012:
  assumes "get_or_load ''criminal_incidents_2012_2021'' (load_criminal_incidents_2012_2021 parse sn) w = (r, w')"
  shows "(\<forall>m. r \<noteq> Inl (FileNotFoundError m))"
    and "files w' = files w"
    and "\<exists>evs. fs_log w' = fs_log w @ evs \<and> \<not> list_ex is_write evs"
    and "r = Inr None \<longleftrightarrow> absent ''criminal_incidents_2012_2021'' w"
    and "r = Inr None \<Longrightarrow> w' = log_event (Exists (data_file ''criminal_incidents_2012_2021'')) w"
    and "\<And>n. n \<noteq> ''criminal_incidents_2012_2021'' \<Longrightarrow> loaded_data w' n = loaded_data w n"
proof -
  show "(\<forall>m. r \<noteq> Inl (FileNotFoundError m))"
    using assms by (auto simp: get_or_load_def split: option.splits prod.splits sum.splits error.splits)
  show "files w' = files w"
    using assms 
    by (auto simp: get_or_load_def log_event_def split: option.splits prod.splits sum.splits error.splits
        dest!: load_2012_cases)
  show "\<exists>evs. fs_log w' = fs_log w @ evs \<and> \<not> list_ex is_write evs"
    using assms 
    by (auto simp: get_or_load_def log_event_def is_write_def split: option.splits prod.splits sum.splits error.splits
        dest!: load_2012_cases)
  show "r = Inr None \<longleftrightarrow> absent ''criminal_incidents_2012_2021'' w"
    using assms 
    by (auto simp: get_or_load_def log_event_def absent_def split: option.splits prod.splits sum.splits error.splits
        dest!: load_2012_cases)
  show "r = Inr None \<Longrightarrow> w' = log_event (Exists (data_file ''criminal_incidents_2012_2021'')) w"
    using assms 
    by (auto simp: get_or_load_def split: option.splits prod.splits sum.splits error.splits
        dest!: load_2012_cases)
  show "\<And>n. n \<noteq> ''criminal_incidents_2012_2021'' \<Longrightarrow> loaded_data w' n = loaded_data w n"
    using assms 
    by (auto simp: get_or_load_def log_event_def split: option.splits prod.splits sum.splits error.splits
        dest!: load_2012_cases)
qed

lemma get_or_load_2010:
  assumes "get_or_load ''criminal_incidents_2010_2019'' (load_criminal_incidents_2010_2019 parse sn) w = (r, w')"
  shows "(\<forall>m. r \<noteq> Inl (FileNotFoundError m))"
    and "files w' = files w"
    and "\<exists>evs. fs_log w' = fs_log w @ evs \<and> \<not> list_ex is_write evs"
    and "r = Inr None \<longleftrightarrow> absent ''criminal_incidents_2010_2019'' w"
    and "r = Inr None \<Longrightarrow> w' = log_event (Exists (data_file ''criminal_incidents_2010_2019'')) w"
    and "\<And>n. n \<noteq> ''criminal_incidents_2010_2019'' \<Longrightarrow> loaded_data w' n = loaded_data w n"
proof -
  show "(\<forall>m. r \<noteq> Inl (FileNotFoundError m))"
    using assms by (auto simp: get_or_load_def split: option.splits prod.splits sum.splits error.splits)
  show "files w' = files w"
    using assms 
    by (auto simp: get_or_load_def log_event_def split: option.splits prod.splits sum.splits error.splits
        dest!: load_2010_cases)
  show "\<exists>evs. fs_log w' = fs_log w @ evs \<and> \<not> list_ex is_write evs"
    using assms 
    by (auto simp: get_or_load_def log_event_def is_write_def split: option.splits prod.splits sum.splits error.splits
        dest!: load_2010_cases)
  show "r = Inr None \<longleftrightarrow> absent ''criminal_incidents_2010_2019'' w"
    using assms 
    by (auto simp: get_or_load_def log_event_def absent_def split: option.splits prod.splits sum.splits error.splits
        dest!: load_2010_cases)
  show "r = Inr None \<Longrightarrow> w' = log_event (Exists (data_file ''criminal_incidents_2010_2019'')) w"
    using assms 
    by (auto simp: get_or_load_def split: option.splits prod.splits sum.splits error.splits
        dest!: load_2010_cases)
  show "\<And>n. n \<noteq> ''criminal_incidents_2010_2019'' \<Longrightarrow> loaded_data w' n = loaded_data w n"
    using assms 
    by (auto simp: get_or_load_def log_event_def split: option.splits prod.splits sum.splits error.splits
        dest!: load_2010_cases)
qed


lemma absent_after_2012:
  assumes "get_or_load ''criminal_incidents_2012_2021'' (load_criminal_incidents_2012_2021 parse sn) w = (r, w')"
  shows "absent ''criminal_incidents_2010_2019'' w' \<longleftrightarrow> absent ''criminal_incidents_2010_2019'' w"
  using get_or_load_2012(2)[OF assms] get_or_load_2012(6)[OF assms, of "''criminal_incidents_2010_2019''"]
  by (simp add: absent_def)

lemma merge_time_series_no_data_iff:
  "fst (merge_time_series parse p w) = Inl (FileNotFoundError ''No data files available to merge'')
     \<longleftrightarrow> absent ''criminal_incidents_2012_2021'' w \<and> absent ''criminal_incidents_2010_2019'' w"
proof -
  obtain r1 w1 where g1: "get_or_load ''criminal_incidents_2012_2021''
      (load_criminal_incidents_2012_2021 parse ''Table 01'') w = (r1, w1)" by fastforce
  obtain r2 w2 where g2: "get_or_load ''criminal_incidents_2010_2019''
      (load_criminal_incidents_2010_2019 parse None) w1 = (r2, w2)" by fastforce
  note a = get_or_load_2012(1,4)[OF g1] absent_after_2012[OF g1]
  note b = get_or_load_2010(1,4)[OF g2]
  show ?thesis
    using a b merge_loaded_not_fnf
    by (cases r1; cases r2) (auto simp: merge_time_series_def g1 g2 split: option.splits)
qed

lemma merge_time_series_only_2010:
  assumes "absent ''criminal_incidents_2012_2021'' w"
    and "get_or_load ''criminal_incidents_2010_2019'' (load_criminal_incidents_2010_2019 parse None)
           (log_event (Exists (data_file ''criminal_incidents_2012_2021'')) w) = (Inr (Some t), w')"
  shows "merge_time_series parse p w = (Inr t, w')"
proof -
  obtain r1 w1 where g1: "get_or_load ''criminal_incidents_2012_2021''
      (load_criminal_incidents_2012_2021 parse ''Table 01'') w = (r1, w1)" by fastforce
  from get_or_load_2012(4,5)[OF g1] assms(1)
  have "r1 = Inr None" "w1 = log_event (Exists (data_file ''criminal_incidents_2012_2021'')) w" by auto
  with g1 assms(2) show ?thesis by (simp add: merge_time_series_def)
qed

lemma merge_time_series_only_2012:
  assumes "get_or_load ''criminal_incidents_2012_2021'' (load_criminal_incidents_2012_2021 parse ''Table 01'') w
             = (Inr (Some t), w')"
    and "absent ''criminal_incidents_2010_2019'' w"
  shows "merge_time_series parse p w = (Inr t, log_event (Exists (data_file ''criminal_incidents_2010_2019'')) w')"
proof -
  obtain r2 w2 where g2: "get_or_load ''criminal_incidents_2010_2019''
      (load_criminal_incidents_2010_2019 parse None) w' = (r2, w2)" by fastforce
  from absent_after_2012[OF assms(1)] assms(2) have "absent ''criminal_incidents_2010_2019'' w'" by simp
  with get_or_load_2010(4,5)[OF g2]
  have "r2 = Inr None" "w2 = log_event (Exists (data_file ''criminal_incidents_2010_2019'')) w'" by auto
  with g2 assms(1) show ?thesis by (simp add: merge_time_series_def)
qed

lemma get_or_load_2010_from_file:
  assumes "loaded_data w ''criminal_incidents_2010_2019'' = None"
    and "files w (data_file ''criminal_incidents_2010_2019'') = Some wb"
    and "choose_sheet None (map fst wb) = Inr n"
    and "map_of wb n = Some sh"
    and "standardize_columns parse (frame_of_sheet sh) ''2010_2019'' = Inr d"
  shows "fst (get_or_load ''criminal_incidents_2010_2019'' (load_criminal_incidents_2010_2019 parse None) w)
           = Inr (Some (stamp ''CSA_2010_2019'' ''March'' d))"
  using assms
  by (simp add: get_or_load_def load_criminal_incidents_2010_2019_def Let_def read_excel_def then_do_def)

lemma get_or_load_2012_from_file:
  assumes "loaded_data w ''criminal_incidents_2012_2021'' = None"
    and "files w (data_file ''criminal_incidents_2012_2021'') = Some wb"
    and "map_of wb ''Table 01'' = Some sh"
    and "standardize_columns parse (frame_of_sheet sh) ''2012_2021'' = Inr d"
  shows "fst (get_or_load ''criminal_incidents_2012_2021'' (load_criminal_incidents_2012_2021 parse ''Table 01'') w)
           = Inr (Some (stamp ''CSA_2012_2021'' ''September'' d))"
  using assms
  by (simp add: get_or_load_def load_criminal_incidents_2012_2021_def Let_def read_excel_def then_do_def)

lemma lower_Contents: "lower ''Contents'' = ''contents''"
  by code_simp

lemma lower_Data: "lower ''Data'' = ''data''"
  by code_simp

lemma parse_decimal_2010: "parse_decimal ''2010'' = Some 2010"
  by (simp add: parse_decimal_def digit_of_def)

lemma parse_decimal_2011: "parse_decimal ''2011'' = Some 2011"
  by (simp add: parse_decimal_def digit_of_def)

lemma choose_ex: "choose_sheet None [''Contents'', ''Data''] = Inr ''Data''"
  by (simp add: choose_sheet_def lower_Contents lower_Data)

lemma std_ex: "standardize_columns parse_decimal
     (frame_of_sheet ([''Year'', ''LGA_NAME''], [[Str ''2011'', Str ''Hume''], [Str ''2010'', Str ''Hume'']])) ''2010_2019''
   = Inr \<lparr>columns = [''year'', ''lga_name''], index = [0, 1], rows = [[Num 2011, Str ''Hume''], [Num 2010, Str ''Hume'']]\<rparr>"
  by (simp add: frame_of_sheet_def std_eval parse_decimal_2010 parse_decimal_2011)

lemma stamp_ex: "stamp ''CSA_2010_2019'' ''March'' 
    \<lparr>columns = [''year'', ''lga_name''], index = [0, 1], rows = [[Num 2011, Str ''Hume''], [Num 2010, Str ''Hume'']]\<rparr>
  = \<lparr>columns = [''year'', ''lga_name'', ''data_source'', ''year_ending_month''], index = [0, 1],
      rows = [[Num 2011, Str ''Hume'', Str ''CSA_2010_2019'', Str ''March''],
              [Num 2010, Str ''Hume'', Str ''CSA_2010_2019'', Str ''March'']]\<rparr>"
  by (simp add: stamp_def setitem_scalar_def setitem_def locs_Nil locs_Cons)

lemma absent_W10: "absent ''criminal_incidents_2012_2021'' W10"
  by (simp add: absent_def W10_def data_file_2012 data_file_2010)

text \<open>
  Claim C3. When the 2012-2021 source is absent (neither cached nor on disk) and the
  2010-2019 table is obtained, from the cache or from its file, the merge returns that
  table as it is; symmetrically when the 2010-2019 source is absent. A table read from a
  file is the standardized sheet with its two provenance columns. The merge fails with
  "No data files available to merge" exactly when both sources are absent.
\<close>

theorem merge_single_source_or_no_data:
  "(absent ''criminal_incidents_2012_2021'' w \<and>
    get_or_load ''criminal_incidents_2010_2019'' (load_criminal_incidents_2010_2019 parse None)
       (log_event (Exists (data_file ''criminal_incidents_2012_2021'')) w) = (Inr (Some t), w')
      \<longrightarrow> merge_time_series parse p w = (Inr t, w')) \<and>
   (get_or_load ''criminal_incidents_2012_2021'' (load_criminal_incidents_2012_2021 parse ''Table 01'') w
       = (Inr (Some t), w') \<and>
    absent ''criminal_incidents_2010_2019'' w
      \<longrightarrow> merge_time_series parse p w
            = (Inr t, log_event (Exists (data_file ''criminal_incidents_2010_2019'')) w')) \<and>
   (absent ''criminal_incidents_2012_2021'' w \<and>
    loaded_data w ''criminal_incidents_2010_2019'' = None \<and>
    files w (data_file ''criminal_incidents_2010_2019'') = Some wb \<and>
    choose_sheet None (map fst wb) = Inr n \<and> map_of wb n = Some sh \<and>
    standardize_columns parse (frame_of_sheet sh) ''2010_2019'' = Inr d
      \<longrightarrow> fst (merge_time_series parse p w) = Inr (stamp ''CSA_2010_2019'' ''March'' d)) \<and>
   (loaded_data w ''criminal_incidents_2012_2021'' = None \<and>
    files w (data_file ''criminal_incidents_2012_2021'') = Some wb \<and>
    map_of wb ''Table 01'' = Some sh \<and>
    standardize_columns parse (frame_of_sheet sh) ''2012_2021'' = Inr d \<and>
    absent ''criminal_incidents_2010_2019'' w
      \<longrightarrow> fst (merge_time_series parse p w) = Inr (stamp ''CSA_2012_2021'' ''September'' d)) \<and>
   (fst (merge_time_series parse p w) = Inl (FileNotFoundError ''No data files available to merge'')
      \<longleftrightarrow> absent ''criminal_incidents_2012_2021'' w \<and> absent ''criminal_incidents_2010_2019'' w)"
proof -
  have c: "fst (merge_time_series parse p w) = Inr (stamp ''CSA_2010_2019'' ''March'' d)"
    if a: "absent ''criminal_incidents_2012_2021'' w"
      and h: "loaded_data w ''criminal_incidents_2010_2019'' = None"
        "files w (data_file ''criminal_incidents_2010_2019'') = Some wb"
        "choose_sheet None (map fst wb) = Inr n" "map_of wb n = Some sh"
        "standardize_columns parse (frame_of_sheet sh) ''2010_2019'' = Inr d"
  proof -
    let ?w1 = "log_event (Exists (data_file ''criminal_incidents_2012_2021'')) w"
    have "loaded_data ?w1 ''criminal_incidents_2010_2019'' = None"
      "files ?w1 (data_file ''criminal_incidents_2010_2019'') = Some wb"
      using h by (simp_all add: log_event_def)
    from get_or_load_2010_from_file[OF this h(3,4,5)]
    obtain w' where "get_or_load ''criminal_incidents_2010_2019''
        (load_criminal_incidents_2010_2019 parse None) ?w1
          = (Inr (Some (stamp ''CSA_2010_2019'' ''March'' d)), w')"
      by (metis prod.collapse)
    from merge_time_series_only_2010[OF a this] show ?thesis by simp
  qed
  have d: "fst (merge_time_series parse p w) = Inr (stamp ''CSA_2012_2021'' ''September'' d)"
    if h: "loaded_data w ''criminal_incidents_2012_2021'' = None"
        "files w (data_file ''criminal_incidents_2012_2021'') = Some wb"
        "map_of wb ''Table 01'' = Some sh"
        "standardize_columns parse (frame_of_sheet sh) ''2012_2021'' = Inr d"
      and a: "absent ''criminal_incidents_2010_2019'' w"
  proof -
    from get_or_load_2012_from_file[OF h]
    obtain w' where "get_or_load ''criminal_incidents_2012_2021''
        (load_criminal_incidents_2012_2021 parse ''Table 01'') w
          = (Inr (Some (stamp ''CSA_2012_2021'' ''September'' d)), w')"
      by (metis prod.collapse)
    from merge_time_series_only_2012[OF this a] show ?thesis by simp
  qed
  show ?thesis
    using merge_time_series_only_2010[of w parse t w' p] merge_time_series_only_2012[of parse w t w' p]
      c d merge_time_series_no_data_iff[of parse p w]
    by blast
qed

lemma std_ex12: "standardize_columns parse_decimal
     (frame_of_sheet ([''Year'', ''Local Government Area''], [[Str ''2013'', Str ''Hume''], [Str ''2012'', Str ''Hume'']])) ''2012_2021''
   = Inr \<lparr>columns = [''year'', ''lga_name''], index = [0, 1], rows = [[Num 2013, Str ''Hume''], [Num 2012, Str ''Hume'']]\<rparr>"
  by (simp add: frame_of_sheet_def std_eval parse_decimal_def digit_of_def)

lemma stamp_ex12: "stamp ''CSA_2012_2021'' ''September''
    \<lparr>columns = [''year'', ''lga_name''], index = [0, 1], rows = [[Num 2013, Str ''Hume''], [Num 2012, Str ''Hume'']]\<rparr>
  = T12"
  by (simp add: stamp_def setitem_scalar_def setitem_def locs_Nil locs_Cons T12_def)

theorem merge_single_source_or_no_data_witness:
  "absent ''criminal_incidents_2012_2021'' WC10 \<and>
   merge_time_series parse_decimal True WC10
     = (Inr T10, log_event (Exists (data_file ''criminal_incidents_2012_2021'')) WC10) \<and>
   absent ''criminal_incidents_2010_2019'' WC12 \<and>
   merge_time_series parse_decimal True WC12
     = (Inr T12, log_event (Exists (data_file ''criminal_incidents_2010_2019'')) WC12) \<and>
   absent ''criminal_incidents_2012_2021'' W10 \<and>
   fst (merge_time_series parse_decimal True W10) = Inr T10 \<and>
   absent ''criminal_incidents_2010_2019'' W12 \<and>
   fst (merge_time_series parse_decimal True W12) = Inr T12 \<and>
   absent ''criminal_incidents_2012_2021'' W0 \<and> absent ''criminal_incidents_2010_2019'' W0 \<and>
   fst (merge_time_series parse_decimal True W0)
     = Inl (FileNotFoundError ''No data files available to merge'')"
proof -
  have a1: "absent ''criminal_incidents_2012_2021'' WC10"
    by (simp add: absent_def WC10_def)
  have g1: "get_or_load ''criminal_incidents_2010_2019'' (load_criminal_incidents_2010_2019 parse_decimal None)
       (log_event (Exists (data_file ''criminal_incidents_2012_2021'')) WC10)
      = (Inr (Some T10), log_event (Exists (data_file ''criminal_incidents_2012_2021'')) WC10)"
    by (simp add: get_or_load_def log_event_def WC10_def)
  note r1 = merge_single_source_or_no_data[of WC10 parse_decimal T10
      "log_event (Exists (data_file ''criminal_incidents_2012_2021'')) WC10" True,
      THEN conjunct1, rule_format, OF conjI, OF a1 g1]
  have a2: "absent ''criminal_incidents_2010_2019'' WC12"
    by (simp add: absent_def WC12_def)
  have g2: "get_or_load ''criminal_incidents_2012_2021'' (load_criminal_incidents_2012_2021 parse_decimal ''Table 01'') WC12
      = (Inr (Some T12), WC12)"
    by (simp add: get_or_load_def WC12_def)
  note r2 = merge_single_source_or_no_data[of WC12 parse_decimal T12 WC12 True,
      THEN conjunct2, THEN conjunct1, rule_format, OF conjI, OF g2 a2]
  have a3: "absent ''criminal_incidents_2012_2021'' W10"
    by (simp add: absent_def W10_def data_file_2012 data_file_2010)
  have h3: "loaded_data W10 ''criminal_incidents_2010_2019'' = None \<and>
    files W10 (data_file ''criminal_incidents_2010_2019'') =
      Some [(''Contents'', ([''Sheet''], [])),
              (''Data'', ([''Year'', ''LGA_NAME''], [[Str ''2011'', Str ''Hume''], [Str ''2010'', Str ''Hume'']]))] \<and>
    choose_sheet None (map fst [(''Contents'', ([''Sheet''], [])),
              (''Data'', ([''Year'', ''LGA_NAME''], [[Str ''2011'', Str ''Hume''], [Str ''2010'', Str ''Hume'']]))]) = Inr ''Data'' \<and>
    map_of [(''Contents'', ([''Sheet''], [])),
              (''Data'', ([''Year'', ''LGA_NAME''], [[Str ''2011'', Str ''Hume''], [Str ''2010'', Str ''Hume'']]))] ''Data''
       = Some ([''Year'', ''LGA_NAME''], [[Str ''2011'', Str ''Hume''], [Str ''2010'', Str ''Hume'']]) \<and>
    standardize_columns parse_decimal
      (frame_of_sheet ([''Year'', ''LGA_NAME''], [[Str ''2011'', Str ''Hume''], [Str ''2010'', Str ''Hume'']])) ''2010_2019''
       = Inr \<lparr>columns = [''year'', ''lga_name''], index = [0, 1], rows = [[Num 2011, Str ''Hume''], [Num 2010, Str ''Hume'']]\<rparr>"
    by (simp add: W10_def choose_ex std_ex)
  note r3 = merge_single_source_or_no_data[where w=W10 and parse=parse_decimal and p=True,
      THEN conjunct2, THEN conjunct2, THEN conjunct1, rule_format, OF conjI, OF a3 h3]
  have a4: "absent ''criminal_incidents_2010_2019'' W12"
    by (simp add: absent_def W12_def data_file_2012 data_file_2010)
  have h4: "loaded_data W12 ''criminal_incidents_2012_2021'' = None \<and>
    files W12 (data_file ''criminal_incidents_2012_2021'') =
      Some [(''Table 01'', ([''Year'', ''Local Government Area''],
                 [[Str ''2013'', Str ''Hume''], [Str ''2012'', Str ''Hume'']]))] \<and>
    map_of [(''Table 01'', ([''Year'', ''Local Government Area''],
                 [[Str ''2013'', Str ''Hume''], [Str ''2012'', Str ''Hume'']]))] ''Table 01''
       = Some ([''Year'', ''Local Government Area''], [[Str ''2013'', Str ''Hume''], [Str ''2012'', Str ''Hume'']]) \<and>
    standardize_columns parse_decimal
      (frame_of_sheet ([''Year'', ''Local Government Area''], [[Str ''2013'', Str ''Hume''], [Str ''2012'', Str ''Hume'']])) ''2012_2021''
       = Inr \<lparr>columns = [''year'', ''lga_name''], index = [0, 1], rows = [[Num 2013, Str ''Hume''], [Num 2012, Str ''Hume'']]\<rparr> \<and>
    absent ''criminal_incidents_2010_2019'' W12"
    by (simp add: W12_def std_ex12 a4[unfolded W12_def])
  note r4 = merge_single_source_or_no_data[where w=W12 and parse=parse_decimal and p=True,
      THEN conjunct2, THEN conjunct2, THEN conjunct2, THEN conjunct1, rule_format, OF h4]
  have a5: "absent ''criminal_incidents_2012_2021'' W0 \<and> absent ''criminal_incidents_2010_2019'' W0"
    by (simp add: absent_def W0_def)
  note r5 = merge_single_source_or_no_data[where w=W0 and parse=parse_decimal and p=True,
      THEN conjunct2, THEN conjunct2, THEN conjunct2, THEN conjunct2, THEN iffD2, OF a5]
  have s3: "stamp ''CSA_2010_2019'' ''March''
      \<lparr>columns = [''year'', ''lga_name''], index = [0, 1],
       rows = [[Num 2011, Str ''Hume''], [Num 2010, Str ''Hume'']]\<rparr> = T10"
    by (simp add: stamp_def setitem_scalar_def setitem_def locs_Nil locs_Cons T10_def)
  show ?thesis
    using a1 r1 a2 r2 a3 r3[unfolded s3] a4 r4[unfolded stamp_ex12] a5 r5 by simp
qed

section \<open>Properties of the exporter\<close>

lemma merge_time_series_log:
  assumes "merge_time_series parse p w = (r, w')"
  shows "\<exists>evs. fs_log w' = fs_log w @ evs \<and> \<not> list_ex is_write evs"
proof -
  obtain r1 w1 where g1: "get_or_load ''criminal_incidents_2012_2021''
      (load_criminal_incidents_2012_2021 parse ''Table 01'') w = (r1, w1)" by fastforce
  obtain r2 w2 where g2: "get_or_load ''criminal_incidents_2010_2019''
      (load_criminal_incidents_2010_2019 parse None) w1 = (r2, w2)" by fastforce
  from get_or_load_2012(3)[OF g1] obtain e1 where e1: "fs_log w1 = fs_log w @ e1" "\<not> list_ex is_write e1"
    by blast
  from get_or_load_2010(3)[OF g2] obtain e2 where e2: "fs_log w2 = fs_log w1 @ e2" "\<not> list_ex is_write e2"
    by blast
  have "w' = w1 \<or> w' = w2"
    using assms g1 g2 by (auto simp: merge_time_series_def split: sum.splits option.splits)
  then show ?thesis
  proof
    assume "w' = w1" with e1 show ?thesis by blast
  next
    assume "w' = w2"
    with e1 e2 have "fs_log w' = fs_log w @ (e1 @ e2)" "\<not> list_ex is_write (e1 @ e2)" by simp_all
    then show ?thesis by blast
  qed
qed

lemma export_W0:
  "export_merged_data parse_decimal ''xml'' None W0
     = (Inl (FileNotFoundError ''No data files available to merge''),
        W0\<lparr>fs_log := [Exists (data_file ''criminal_incidents_2012_2021''),
                       Exists (data_file ''criminal_incidents_2010_2019'')]\<rparr>)"
  by (simp add: export_merged_data_def merge_time_series_def get_or_load_def
      load_criminal_incidents_2012_2021_def load_criminal_incidents_2010_2019_def W0_def log_event_def
      Let_def data_file_2012 data_file_2010)

lemma export_W12:
  "export_merged_data parse_decimal ''xml'' None W12
     = (Inl (ValueError ''Unsupported format: xml''),
        W12\<lparr>loaded_data := [''criminal_incidents_2012_2021'' \<mapsto> T12],
            fs_log := [Exists (data_file ''criminal_incidents_2012_2021''),
                       ReadExcel (data_file ''criminal_incidents_2012_2021'') ''Table 01'',
                       Exists (data_file ''criminal_incidents_2010_2019'')]\<rparr>)"
  by (simp add: export_merged_data_def merge_time_series_def get_or_load_def
      load_criminal_incidents_2012_2021_def load_criminal_incidents_2010_2019_def W12_def log_event_def
      Let_def data_file_2012 data_file_2010 read_excel_def then_do_def std_ex12
      stamp_def setitem_scalar_def setitem_def locs_Nil locs_Cons T12_def)

text \<open>
  Claim C7, as amended. For every output format other than csv, excel and parquet the
  export first runs the merge, which checks for and reads the source files that are not
  cached; it ends in the state the merge left, and writes no file. When the merge fails the
  export fails with the merge's error, which is "No data files available to merge" exactly
  when both sources are absent; when the merge succeeds the export fails with
  "Unsupported format".
\<close>

theorem export_unsupported_format_after_merge:
  assumes "output_format \<notin> {''csv'', ''excel'', ''parquet''}"
  shows "export_merged_data parse output_format filename w =
           (case merge_time_series parse True w of
              (Inl e, w1) \<Rightarrow> (Inl e, w1)
            | (Inr merged, w1) \<Rightarrow>
                (Inl (ValueError (''Unsupported format: '' @ output_format)), w1)) \<and>
         snd (export_merged_data parse output_format filename w) = snd (merge_time_series parse True w) \<and>
         filter is_write (fs_log (snd (export_merged_data parse output_format filename w)))
           = filter is_write (fs_log w) \<and>
         (fst (export_merged_data parse output_format filename w)
            = Inl (FileNotFoundError ''No data files available to merge'')
          \<longleftrightarrow> absent ''criminal_incidents_2012_2021'' w \<and> absent ''criminal_incidents_2010_2019'' w)"
proof -
  obtain r w1 where m: "merge_time_series parse True w = (r, w1)" by fastforce
  have a: "export_merged_data parse output_format filename w =
           (case merge_time_series parse True w of
              (Inl e, w1) \<Rightarrow> (Inl e, w1)
            | (Inr merged, w1) \<Rightarrow>
                (Inl (ValueError (''Unsupported format: '' @ output_format)), w1))"
    using assms by (simp add: export_merged_data_def Let_def split: prod.splits sum.splits)
  have b: "snd (export_merged_data parse output_format filename w) = w1"
    using m by (simp add: a split: sum.splits)
  from merge_time_series_log[OF m] obtain evs where
    "fs_log w1 = fs_log w @ evs" "\<not> list_ex is_write evs" by blast
  then have c: "filter is_write (fs_log w1) = filter is_write (fs_log w)"
    by (simp add: list_ex_iff filter_empty_conv)
  have d: "fst (export_merged_data parse output_format filename w)
            = Inl (FileNotFoundError ''No data files available to merge'')
          \<longleftrightarrow> fst (merge_time_series parse True w) = Inl (FileNotFoundError ''No data files available to merge'')"
    using m by (auto simp: a split: sum.splits)
  show ?thesis
    using a b c d m merge_time_series_no_data_iff[of parse True w] by simp
qed

theorem export_unsupported_format_after_merge_witness:
  "''xml'' \<notin> {''csv'', ''excel'', ''parquet''} \<and>
   fst (export_merged_data parse_decimal ''xml'' None W12) = Inl (ValueError ''Unsupported format: xml'') \<and>
   filter is_write (fs_log (snd (export_merged_data parse_decimal ''xml'' None W12))) = []"
proof -
  have h: "''xml'' \<notin> {''csv'', ''excel'', ''parquet''}" by simp
  have l: "filter is_write (fs_log W12) = []" by (simp add: W12_def)
  note c = export_unsupported_format_after_merge[OF h, of parse_decimal None W12,
      THEN conjunct2, THEN conjunct2, THEN conjunct1]
  have f: "fst (export_merged_data parse_decimal ''xml'' None W12)
             = Inl (ValueError ''Unsupported format: xml'')"
    by (simp add: export_W12)
  show ?thesis using h f c l by simp
qed

text \<open>
  Claim C7 as stated fails. With both source files missing the export of format "xml"
  fails with "No data files available to merge", after two existence checks. With the
  2012-2021 workbook on disk it fails with "Unsupported format" only after the workbook
  was read and its table cached.
\<close>

theorem export_unsupported_format_counterexample:
  "''xml'' \<notin> {''csv'', ''excel'', ''parquet''} \<and>
   export_merged_data parse_decimal ''xml'' None W0
     = (Inl (FileNotFoundError ''No data files available to merge''),
        W0\<lparr>fs_log := [Exists (data_file ''criminal_incidents_2012_2021''),
                       Exists (data_file ''criminal_incidents_2010_2019'')]\<rparr>) \<and>
   fs_log W0 = [] \<and>
   export_merged_data parse_decimal ''xml'' None W12
     = (Inl (ValueError ''Unsupported format: xml''),
        W12\<lparr>loaded_data := [''criminal_incidents_2012_2021'' \<mapsto> T12],
            fs_log := [Exists (data_file ''criminal_incidents_2012_2021''),
                       ReadExcel (data_file ''criminal_incidents_2012_2021'') ''Table 01'',
                       Exists (data_file ''criminal_incidents_2010_2019'')]\<rparr>) \<and>
   fs_log W12 = []"
  using export_W0 export_W12 by (simp add: W0_def W12_def)

section \<open>Properties of the aggregator\<close>


lemma collect_Inr:
  "collect ks f = Inr rs \<Longrightarrow> list_all2 (\<lambda>k r. f k = Inr r) ks rs"
proof (induction ks arbitrary: rs)
  case Nil
  then show ?case by simp
next
  case (Cons k ks)
  then show ?case by (auto dest!: then_do_Inr)
qed










lemma lookup_cell_single: "locs cols c = [i] \<Longrightarrow> lookup_cell cols r c = cell_at r i"
  by (simp add: lookup_cell_def)











lemma sort_values_Inr:
  assumes "sort_values keys df = Inr t"
  shows "\<exists>ls. key_locs (columns df) keys = Inr ls \<and> columns t = columns df \<and>
          sorted (map (row_key ls) (rows t)) \<and> set (rows t) \<subseteq> set (rows df)"
proof -
  from assms obtain ls where ls: "key_locs (columns df) keys = Inr ls"
    and t: "t = df\<lparr>index := map fst (sort_key (\<lambda>p. row_key ls (snd p)) (zip (index df) (rows df))),
                  rows := map snd (sort_key (\<lambda>p. row_key ls (snd p)) (zip (index df) (rows df)))\<rparr>"
    by (auto simp: sort_values_def Let_def dest!: then_do_Inr)
  have "sorted (map (\<lambda>p. row_key ls (snd p)) (sort_key (\<lambda>p. row_key ls (snd p)) (zip (index df) (rows df))))"
    by (rule sorted_sort_key)
  then have "sorted (map (row_key ls) (rows t))" by (simp add: t o_def)
  moreover have "set (rows t) \<subseteq> set (rows df)"
    by (auto simp: t dest: set_zip_rightD)
  ultimately show ?thesis using ls t by auto
qed






lemma two_keys_le: "([a, b] \<le> [c, d]) = ((a, b) \<le> (c, (d :: 'a :: linorder)))"
  by (auto simp: less_eq_prod_def Cons_le_Cons )

lemma sorted_two_keys:
  "sorted (map (\<lambda>r. [f r, g r]) xs) = sorted (map (\<lambda>r. (f r, (g r :: 'a :: linorder))) xs)"
proof -
  have "(\<lambda>x y. [f x, g x] \<le> [f y, g y]) = (\<lambda>x y. (f x, g x) \<le> (f y, g y))"
    by (simp only: two_keys_le)
  then show ?thesis by (simp only: sorted_map)
qed




lemma cell_at_snoc2:
  "cell_at ([y, d] @ [v]) 0 = y" "cell_at ([y, d] @ [v]) 1 = d" "cell_at ([y, d] @ [v]) 2 = v"
  by (simp_all add: cell_at_def)


lemma row_key_two: "row_key [i, j] = (\<lambda>r. [cell_key (cell_at r i), cell_key (cell_at r j)])"
  by (simp add: row_key_def fun_eq_iff)







section \<open>Properties of the merge of two tables\<close>

lemma merge_loaded_Inr:
  assumes "merge_loaded p d12 d10 = Inr t"
  shows "\<exists>ys12 ys10 merged s.
      year_series d12 = Inr ys12 \<and> year_series d10 = Inr ys10 \<and>
      (if p
       then (\<exists>m. min_year (years_of ys12) = Inr m \<and>
                 pd_concat (select_rows d10 (map (year_lt m) ys10)) d12 = Inr merged)
       else (\<exists>m. max_year (years_of ys10) = Inr m \<and>
                 pd_concat d10 (select_rows d12 (map (year_gt m) ys12)) = Inr merged)) \<and>
      sort_values [''year'', ''lga_name''] merged = Inr s \<and> t = reset_index s"
  using assms unfolding merge_loaded_def Let_def
  by (cases p) (auto dest!: then_do_Inr)

lemma key_locs_two:
  assumes "key_locs cols [a, b] = Inr ls"
  shows "\<exists>i j. ls = [i, j] \<and> locs cols a = [i] \<and> locs cols b = [j]"
  using assms by (auto split: list.splits dest!: then_do_Inr simp: then_do_simps)

lemma merge_time_series_both:
  assumes "get_or_load ''criminal_incidents_2012_2021''
             (load_criminal_incidents_2012_2021 parse ''Table 01'') w = (Inr (Some d12), w1)"
    and "get_or_load ''criminal_incidents_2010_2019''
             (load_criminal_incidents_2010_2019 parse None) w1 = (Inr (Some d10), w2)"
  shows "merge_time_series parse p w = (merge_loaded p d12 d10, w2)"
  using assms by (simp add: merge_time_series_def)

lemma merge_loaded_sorted:
  assumes "merge_loaded p d12 d10 = Inr t"
  shows "index t = [0..<length (rows t)] \<and>
         count_list (columns t) ''year'' = 1 \<and>
         count_list (columns t) ''lga_name'' = 1 \<and>
         sorted (map (\<lambda>r. (cell_key (lookup_cell (columns t) r ''year''),
                           cell_key (lookup_cell (columns t) r ''lga_name''))) (rows t))"
proof -
  from merge_loaded_Inr[OF assms] obtain merged s where
    s: "sort_values [''year'', ''lga_name''] merged = Inr s" and t: "t = reset_index s"
    by blast
  from sort_values_Inr[OF s] obtain ls where
    ls: "key_locs (columns merged) [''year'', ''lga_name''] = Inr ls"
    and c: "columns s = columns merged"
    and so: "sorted (map (row_key ls) (rows s))"
    by blast
  from key_locs_two[OF ls] obtain i j where
    ij: "ls = [i, j]" "locs (columns merged) ''year'' = [i]" "locs (columns merged) ''lga_name'' = [j]"
    by blast
  have ct: "columns t = columns merged" "rows t = rows s"
    by (simp_all add: t reset_index_def c)
  have "sorted (map (\<lambda>r. (cell_key (cell_at r i), cell_key (cell_at r j))) (rows s))"
    using so unfolding ij(1) row_key_two sorted_two_keys .
  then have "sorted (map (\<lambda>r. (cell_key (lookup_cell (columns t) r ''year''),
                           cell_key (lookup_cell (columns t) r ''lga_name''))) (rows t))"
    by (simp add: ct lookup_cell_single[OF ij(2)] lookup_cell_single[OF ij(3)])
  moreover have "count_list (columns t) ''year'' = 1" "count_list (columns t) ''lga_name'' = 1"
    using ij(2,3) length_locs[of "columns merged" "''year''"]
      length_locs[of "columns merged" "''lga_name''"] by (simp_all add: ct)
  moreover have "index t = [0..<length (rows t)]" by (simp add: t reset_index_def)
  ultimately show ?thesis by blast
qed

lemma T10_unsorted:
  "\<not> sorted (map (\<lambda>r. (cell_key (lookup_cell (columns T10) r ''year''),
                       cell_key (lookup_cell (columns T10) r ''lga_name''))) (rows T10))"
  by (simp add: T10_def lookup_cell_def locs_Nil locs_Cons cell_at_def less_eq_prod_def)

lemmas merge_eval = merge_loaded_def year_series_def getitem_def locs_Nil locs_Cons then_do_def
  cell_at_def is_str_def years_of_def List.map_filter_def num_of_def min_year_def max_year_def
  select_rows_def year_lt_def year_gt_def pd_concat_def reindex_row_def lookup_cell_def
  sort_values_def row_key_def reset_index_def

lemma merge_loaded_sep: "merge_loaded True S12 M10 = Inr MERGED_SEP"
  by (simp add: merge_eval S12_def M10_def MERGED_SEP_def)

lemma merge_loaded_mar: "merge_loaded False S12 M10 = Inr MERGED_MAR"
  by (simp add: merge_eval S12_def M10_def MERGED_MAR_def)

lemma get_or_load_WB:
  "get_or_load ''criminal_incidents_2012_2021'' (load_criminal_incidents_2012_2021 parse_decimal ''Table 01'') WB
     = (Inr (Some S12), WB)"
  "get_or_load ''criminal_incidents_2010_2019'' (load_criminal_incidents_2010_2019 parse_decimal None) WB
     = (Inr (Some M10), WB)"
  by (simp_all add: get_or_load_def WB_def)

text \<open>
  Claim C8, as amended. Whenever both source tables are obtained and the merge returns a
  table, that table has the fresh row index 0, 1, ... and is sorted ascending by year,
  then by lga\_name (numbers before strings, missing values last), each of the two being
  the label of exactly one column. In the degraded case the single table is returned as
  it was obtained.
\<close>

theorem merge_both_sources_sorted_and_reindexed:
  "(get_or_load ''criminal_incidents_2012_2021''
       (load_criminal_incidents_2012_2021 parse ''Table 01'') w = (Inr (Some d12), w1) \<and>
    get_or_load ''criminal_incidents_2010_2019''
       (load_criminal_incidents_2010_2019 parse None) w1 = (Inr (Some d10), w2) \<and>
    fst (merge_time_series parse p w) = Inr t
    \<longrightarrow> index t = [0..<length (rows t)] \<and>
        count_list (columns t) ''year'' = 1 \<and>
        count_list (columns t) ''lga_name'' = 1 \<and>
        sorted (map (\<lambda>r. (cell_key (lookup_cell (columns t) r ''year''),
                          cell_key (lookup_cell (columns t) r ''lga_name''))) (rows t))) \<and>
   (absent ''criminal_incidents_2012_2021'' w \<and>
    get_or_load ''criminal_incidents_2010_2019'' (load_criminal_incidents_2010_2019 parse None)
       (log_event (Exists (data_file ''criminal_incidents_2012_2021'')) w) = (Inr (Some t), w')
      \<longrightarrow> fst (merge_time_series parse p w) = Inr t) \<and>
   (get_or_load ''criminal_incidents_2012_2021'' (load_criminal_incidents_2012_2021 parse ''Table 01'') w
       = (Inr (Some t), w') \<and>
    absent ''criminal_incidents_2010_2019'' w
      \<longrightarrow> fst (merge_time_series parse p w) = Inr t)"
proof (intro conjI impI)
  assume h: "get_or_load ''criminal_incidents_2012_2021''
       (load_criminal_incidents_2012_2021 parse ''Table 01'') w = (Inr (Some d12), w1) \<and>
    get_or_load ''criminal_incidents_2010_2019''
       (load_criminal_incidents_2010_2019 parse None) w1 = (Inr (Some d10), w2) \<and>
    fst (merge_time_series parse p w) = Inr t"
  then have "merge_loaded p d12 d10 = Inr t"
    using merge_time_series_both[of parse w d12 w1 d10 w2 p] by simp
  from merge_loaded_sorted[OF this]
  show "index t = [0..<length (rows t)]"
    "count_list (columns t) ''year'' = 1"
    "count_list (columns t) ''lga_name'' = 1"
    "sorted (map (\<lambda>r. (cell_key (lookup_cell (columns t) r ''year''),
                          cell_key (lookup_cell (columns t) r ''lga_name''))) (rows t))"
    by blast+
next
  assume "absent ''criminal_incidents_2012_2021'' w \<and>
    get_or_load ''criminal_incidents_2010_2019'' (load_criminal_incidents_2010_2019 parse None)
       (log_event (Exists (data_file ''criminal_incidents_2012_2021'')) w) = (Inr (Some t), w')"
  then show "fst (merge_time_series parse p w) = Inr t"
    using merge_time_series_only_2010[of w parse t w' p] by simp
next
  assume "get_or_load ''criminal_incidents_2012_2021'' (load_criminal_incidents_2012_2021 parse ''Table 01'') w
       = (Inr (Some t), w') \<and>
    absent ''criminal_incidents_2010_2019'' w"
  then show "fst (merge_time_series parse p w) = Inr t"
    using merge_time_series_only_2012[of parse w t w' p] by simp
qed

lemma merge_WB_sep: "merge_time_series parse_decimal True WB = (Inr MERGED_SEP, WB)"
  using merge_time_series_both[OF get_or_load_WB, of True] by (simp add: merge_loaded_sep)

lemma merge_WB_mar: "merge_time_series parse_decimal False WB = (Inr MERGED_MAR, WB)"
  using merge_time_series_both[OF get_or_load_WB, of False] by (simp add: merge_loaded_mar)

theorem merge_both_sources_sorted_and_reindexed_witness:
  "get_or_load ''criminal_incidents_2012_2021''
       (load_criminal_incidents_2012_2021 parse_decimal ''Table 01'') WB = (Inr (Some S12), WB) \<and>
   get_or_load ''criminal_incidents_2010_2019''
       (load_criminal_incidents_2010_2019 parse_decimal None) WB = (Inr (Some M10), WB) \<and>
   fst (merge_time_series parse_decimal True WB) = Inr MERGED_SEP \<and>
   index MERGED_SEP = [0..<length (rows MERGED_SEP)] \<and>
   sorted (map (\<lambda>r. (cell_key (lookup_cell (columns MERGED_SEP) r ''year''),
                     cell_key (lookup_cell (columns MERGED_SEP) r ''lga_name''))) (rows MERGED_SEP)) \<and>
   absent ''criminal_incidents_2012_2021'' WC10 \<and>
   fst (merge_time_series parse_decimal True WC10) = Inr T10 \<and>
   absent ''criminal_incidents_2010_2019'' WC12 \<and>
   fst (merge_time_series parse_decimal True WC12) = Inr T12"
proof -
  have m: "fst (merge_time_series parse_decimal True WB) = Inr MERGED_SEP"
    by (simp add: merge_WB_sep)
  note a = merge_both_sources_sorted_and_reindexed[of parse_decimal WB S12 WB M10 WB True MERGED_SEP,
      THEN conjunct1, rule_format, OF conjI, OF get_or_load_WB(1) conjI, OF get_or_load_WB(2) m]
  have a1: "absent ''criminal_incidents_2012_2021'' WC10"
    by (simp add: absent_def WC10_def)
  have g1: "get_or_load ''criminal_incidents_2010_2019'' (load_criminal_incidents_2010_2019 parse_decimal None)
       (log_event (Exists (data_file ''criminal_incidents_2012_2021'')) WC10)
      = (Inr (Some T10), log_event (Exists (data_file ''criminal_incidents_2012_2021'')) WC10)"
    by (simp add: get_or_load_def log_event_def WC10_def)
  note b = merge_both_sources_sorted_and_reindexed[where w=WC10 and parse=parse_decimal and t=T10 and p=True,
      THEN conjunct2, THEN conjunct1, rule_format, OF conjI, OF a1 g1]
  have a2: "absent ''criminal_incidents_2010_2019'' WC12"
    by (simp add: absent_def WC12_def)
  have g2: "get_or_load ''criminal_incidents_2012_2021'' (load_criminal_incidents_2012_2021 parse_decimal ''Table 01'') WC12
      = (Inr (Some T12), WC12)"
    by (simp add: get_or_load_def WC12_def)
  note c = merge_both_sources_sorted_and_reindexed[where w=WC12 and parse=parse_decimal and t=T12 and p=True,
      THEN conjunct2, THEN conjunct2, rule_format, OF conjI, OF g2 a2]
  show ?thesis using get_or_load_WB m a a1 b a2 c by blast
qed

text \<open>
  Claim C8 as stated fails in the degraded case: with only the 2010-2019 table available,
  holding the year 2011 before the year 2010, the merge returns it in that order.
\<close>

theorem merge_single_source_unsorted_counterexample:
  "fst (merge_time_series parse_decimal True WC10) = Inr T10 \<and>
   \<not> sorted (map (\<lambda>r. (cell_key (lookup_cell (columns T10) r ''year''),
                       cell_key (lookup_cell (columns T10) r ''lga_name''))) (rows T10))"
proof -
  have a1: "absent ''criminal_incidents_2012_2021'' WC10"
    by (simp add: absent_def WC10_def)
  have g1: "get_or_load ''criminal_incidents_2010_2019'' (load_criminal_incidents_2010_2019 parse_decimal None)
       (log_event (Exists (data_file ''criminal_incidents_2012_2021'')) WC10)
      = (Inr (Some T10), log_event (Exists (data_file ''criminal_incidents_2012_2021'')) WC10)"
    by (simp add: get_or_load_def log_event_def WC10_def)
  from merge_time_series_only_2010[OF a1 g1, of True] T10_unsorted show ?thesis by simp
qed

end
